theory Spec2Isabelle
  imports Main "HOL-Library.Word"
begin

section \<open>Go values used by \<^verbatim>\<open>awstasks/instance.go\<close>\<close>

text \<open>
  A Go pointer \<^verbatim>\<open>*T\<close> that the code tests against \<^verbatim>\<open>nil\<close> or dereferences is an
  \<open>option\<close>: \<open>None\<close> is \<^verbatim>\<open>nil\<close>. Dereferencing \<^verbatim>\<open>nil\<close> and indexing past the end
  of a slice are run-time panics; they are values of \<open>error\<close>, like the errors the code
  returns. Slices of pointers hold the structs themselves: the SDK's decoder stores no
  \<^verbatim>\<open>nil\<close> element in a slice. A Go string is a sequence of bytes, here a \<open>string\<close>.
\<close>

type_synonym byte = "8 word"

datatype error =
    ErrListingInstances string
  | ErrMultipleInstances string
  | ErrInstanceIdNil
  | ErrQueryUserData string string
  | ErrDecodeUserData string
  | RequiredField string
  | ProviderError string
  | ErrRenderUserData string
  | ErrUserDataTooLarge nat
  | ErrCreatingInstance string
  | NilDereference
  | IndexOutOfRange

text \<open>
  \<open>RequiredField\<close> stands for \<^verbatim>\<open>fi.RequiredField(key)\<close>, \<open>ProviderError\<close> for an error of
  a collaborator that the code returns as it is, the other constructors for the
  \<^verbatim>\<open>fmt.Errorf\<close> messages of the file, in the order they appear there.
\<close>

datatype warning =
    WarnUnexpectedARN string
  | WarnUnableToResolveImage string string
  | WarnImageNotFound string

text \<open>The lines written with \<^verbatim>\<open>glog.Warningf\<close>; \<^verbatim>\<open>glog.V(n).Info\<close> lines are not recorded.\<close>

definition MaxUserDataSize :: nat where
  "MaxUserDataSize = 16384"

definition StringValue :: "string option \<Rightarrow> string" where
  "StringValue p = (case p of None \<Rightarrow> [] | Some s \<Rightarrow> s)"

subsection \<open>Package \<^verbatim>\<open>strings\<close>\<close>

text \<open>\<^verbatim>\<open>strings.Split(s, sep)\<close> for a separator of one byte: never an empty slice.\<close>

fun Split :: "string \<Rightarrow> char \<Rightarrow> string list" where
  "Split [] sep = [[]]"
| "Split (c # cs) sep =
     (if c = sep then [] # Split cs sep
      else (case Split cs sep of [] \<Rightarrow> [[c]] | t # ts \<Rightarrow> (c # t) # ts))"

definition HasPrefix :: "string \<Rightarrow> string \<Rightarrow> bool" where
  "HasPrefix s p = (length p \<le> length s \<and> take (length p) s = p)"

definition TrimPrefix :: "string \<Rightarrow> string \<Rightarrow> string" where
  "TrimPrefix s p = (if HasPrefix s p then drop (length p) s else s)"

section \<open>The resource descriptor\<close>

text \<open>
  \<^verbatim>\<open>Subnet\<close>, \<^verbatim>\<open>SSHKey\<close>, \<^verbatim>\<open>SecurityGroup\<close> and \<^verbatim>\<open>IAMInstanceProfile\<close> are tasks declared in
  other files of the package; this file reads and writes one field of each, which is
  the field kept here.
\<close>

record Subnet =
  Subnet_ID :: "string option"

record SSHKey =
  SSHKey_Name :: "string option"

record SecurityGroup =
  SecurityGroup_ID :: "string option"

record IAMInstanceProfile =
  IAMInstanceProfile_Name :: "string option"

text \<open>
  Modelled from the spec: \<^verbatim>\<open>fi.Resource\<close>, \<^verbatim>\<open>fi.NewBytesResource\<close> and
  \<^verbatim>\<open>fi.ResourceAsBytes\<close> are declared outside this file. The startup payload is opaque;
  rendering it gives its bytes or fails.
\<close>

datatype Resource = BytesResource "byte list" | FailingResource string

definition NewBytesResource :: "byte list \<Rightarrow> Resource" where
  "NewBytesResource b = BytesResource b"

fun ResourceAsBytes :: "Resource \<Rightarrow> string + byte list" where
  "ResourceAsBytes (BytesResource b) = Inr b"
| "ResourceAsBytes (FailingResource msg) = Inl msg"

record Instance =
  ID :: "string option"
  UserData :: "Resource option"
  Subnet :: "Subnet option"
  PrivateIPAddress :: "string option"
  Name :: "string option"
  Tags :: "string \<rightharpoonup> string"
  ImageID :: "string option"
  InstanceType :: "string option"
  SSHKey :: "SSHKey option"
  SecurityGroups :: "SecurityGroup list"
  AssociatePublicIP :: "bool option"
  IAMInstanceProfile :: "IAMInstanceProfile option"

definition CompareWithID :: "Instance \<Rightarrow> string option" where
  "CompareWithID s = ID s"

section \<open>The provider's data (package \<^verbatim>\<open>ec2\<close> of the SDK)\<close>

record ec2_Tag =
  Key :: "string option"
  Value :: "string option"

record ec2_Filter =
  Filter_Name :: "string option"
  Filter_Values :: "string option list"

record ec2_GroupIdentifier =
  GroupId :: "string option"

record ec2_InstanceNetworkInterfaceAssociation =
  PublicIp :: "string option"

record ec2_InstanceNetworkInterface =
  Association :: "ec2_InstanceNetworkInterfaceAssociation option"

record ec2_IamInstanceProfile =
  Arn :: "string option"

record ec2_Instance =
  ec2_InstanceId :: "string option"
  ec2_PrivateIpAddress :: "string option"
  ec2_InstanceType :: "string option"
  ec2_ImageId :: "string option"
  ec2_Tags :: "ec2_Tag list"
  ec2_SubnetId :: "string option"
  ec2_KeyName :: "string option"
  ec2_SecurityGroups :: "ec2_GroupIdentifier list"
  ec2_NetworkInterfaces :: "ec2_InstanceNetworkInterface list"
  ec2_IamInstanceProfile :: "ec2_IamInstanceProfile option"

record ec2_Reservation =
  Instances :: "ec2_Instance list"

record ec2_DescribeInstancesInput =
  Filters :: "ec2_Filter list"

record ec2_DescribeInstancesOutput =
  Reservations :: "ec2_Reservation list"

record ec2_DescribeInstanceAttributeInput =
  Attribute :: "string option"
  Attribute_InstanceId :: "string option"

record ec2_AttributeValue =
  AttributeValue_Value :: "string option"

record ec2_DescribeInstanceAttributeOutput =
  Output_UserData :: "ec2_AttributeValue option"

record ec2_Image =
  Image_ImageId :: "string option"

text \<open>
  The block device mappings are built by \<^verbatim>\<open>buildEphemeralDevices\<close> and converted by
  \<^verbatim>\<open>bdm.ToEC2(deviceName)\<close>, both declared in another file; this file only passes
  them on. A converted mapping is the term \<open>ToEC2 bdm deviceName\<close> itself.
\<close>

typedecl BlockDeviceMapping

datatype ec2_BlockDeviceMapping = ToEC2 BlockDeviceMapping string

record ec2_InstanceNetworkInterfaceSpecification =
  DeviceIndex :: "64 word option"
  AssociatePublicIpAddress :: "bool option"
  Spec_SubnetId :: "string option"
  Spec_PrivateIpAddress :: "string option"
  Groups :: "string option list"

record ec2_IamInstanceProfileSpecification =
  Spec_Name :: "string option"

record ec2_RunInstancesInput =
  Input_ImageId :: "string option"
  Input_InstanceType :: "string option"
  MinCount :: "64 word option"
  MaxCount :: "64 word option"
  Input_KeyName :: "string option"
  Input_NetworkInterfaces :: "ec2_InstanceNetworkInterfaceSpecification list"
  Input_BlockDeviceMappings :: "ec2_BlockDeviceMapping list"
  Input_UserData :: "string option"
  Input_IamInstanceProfile :: "ec2_IamInstanceProfileSpecification option"

section \<open>The collaborators\<close>

text \<open>
  \<^verbatim>\<open>awsup.AWSCloud\<close> and its \<^verbatim>\<open>EC2()\<close> client: every operation is a function from the
  request to the provider's answer, an error message on the left. \<^verbatim>\<open>Find\<close> and
  \<^verbatim>\<open>RenderAWS\<close> call each operation at most once, so a function of the request loses
  nothing. A \<^verbatim>\<open>nil\<close> response without an error is \<open>Inr None\<close>.
\<close>

record AWSCloud =
  BuildFilters :: "string option \<Rightarrow> ec2_Filter list"
  DescribeInstances ::
    "ec2_DescribeInstancesInput \<Rightarrow> string + ec2_DescribeInstancesOutput option"
  DescribeInstanceAttribute ::
    "ec2_DescribeInstanceAttributeInput \<Rightarrow> string + ec2_DescribeInstanceAttributeOutput option"
  ResolveImage :: "string \<Rightarrow> string + ec2_Image option"
  RunInstances :: "ec2_RunInstancesInput \<Rightarrow> string + ec2_Reservation option"

record AWSAPITarget =
  Cloud :: AWSCloud
  AddAWSTags :: "string \<Rightarrow> (string \<rightharpoonup> string) \<Rightarrow> string option"

text \<open>
  Functions that the file calls and that are declared elsewhere (other files of the
  package, \<^verbatim>\<open>encoding/base64\<close>): parameters of the model.
  \<^verbatim>\<open>buildEphemeralDevices\<close> returns a Go map; the list holds its entries in the order
  the \<^verbatim>\<open>range\<close> loop meets them.
\<close>

record Externals =
  findNameTag :: "ec2_Tag list \<Rightarrow> string option"
  mapEC2TagsToMap :: "ec2_Tag list \<Rightarrow> (string \<rightharpoonup> string)"
  DecodeString :: "string \<Rightarrow> string + byte list"
  EncodeToString :: "byte list \<Rightarrow> string"
  buildEphemeralDevices :: "string option \<Rightarrow> string + (string \<times> BlockDeviceMapping) list"

text \<open>
  Modelled from the spec: \<^verbatim>\<open>terraform.Literal\<close> and \<^verbatim>\<open>terraform.LiteralSelfLink\<close> are
  declared outside this file. The spec calls the result a stable symbolic reference
  string derived deterministically from the resource's stable name: a \<open>Literal\<close> is that
  string, and the helper is a function of the resource type and the name it is given,
  with no other input.
\<close>

type_synonym Literal = string

record Terraform =
  LiteralSelfLink :: "string \<Rightarrow> string \<Rightarrow> Literal"

text \<open>
  Modelled from the spec: \<^verbatim>\<open>awsup.NewEC2Filter(name, values...)\<close> is declared outside
  this file; it builds the query filter of that name over those values.
\<close>

definition NewEC2Filter :: "string \<Rightarrow> string list \<Rightarrow> ec2_Filter" where
  "NewEC2Filter name vals = \<lparr>Filter_Name = Some name, Filter_Values = map Some vals\<rparr>"

text \<open>The provider calls of the live backend, in the order they are made.\<close>

datatype call =
    CallResolveImage string
  | CallRunInstances ec2_RunInstancesInput
  | CallAddAWSTags string "string \<rightharpoonup> string"

fun isAddAWSTags :: "call \<Rightarrow> bool" where
  "isAddAWSTags (CallAddAWSTags _ _) = True"
| "isAddAWSTags _ = False"

section \<open>nameFromIAMARN\<close>

text \<open>
  Lines 166 to 179. The result is the returned pointer, or the panic of the index
  expression \<^verbatim>\<open>tokens[len(tokens)-1]\<close>, with the warnings logged on the way.
\<close>

definition nameFromIAMARN :: "string option \<Rightarrow> (error + string option) \<times> warning list" where
  "nameFromIAMARN arn =
     (case arn of
        None \<Rightarrow> (Inr None, [])
      | Some a \<Rightarrow>
          (let tokens = Split a CHR '':'' in
           if length tokens = 0 then (Inl IndexOutOfRange, [])
           else
             (let last = tokens ! (length tokens - 1);
                  ws = (if \<not> HasPrefix last ''instance-profile/''
                        then [WarnUnexpectedARN a] else []);
                  name = TrimPrefix last ''instance-profile/''
              in (Inr (Some name), ws))))"

section \<open>CheckChanges\<close>

text \<open>
  Lines 189 to 196. \<open>a\<close> is \<^verbatim>\<open>nil\<close> when no resource was found; \<open>e\<close> is the task
  itself. The result is the returned error, \<open>None\<close> for \<^verbatim>\<open>nil\<close>.
\<close>

definition CheckChanges :: "Instance option \<Rightarrow> Instance \<Rightarrow> Instance \<Rightarrow> error option" where
  "CheckChanges a e changes =
     (if a \<noteq> None then
        (if Name e = None then Some (RequiredField ''Name'') else None)
      else None)"

section \<open>TerraformLink\<close>

text \<open>
  What a call of \<^verbatim>\<open>TerraformLink\<close> leaves behind, in the terms used for \<^verbatim>\<open>Find\<close> and
  \<^verbatim>\<open>RenderAWS\<close>: the returned reference (or the panic), the receiver \<open>e\<close> as the call
  leaves it, and the provider calls made.
\<close>

record LinkOutcome =
  link_returned :: "error + Literal"
  link_receiver :: Instance
  link_calls :: "call list"

text \<open>
  Lines 282 to 284: \<^verbatim>\<open>*e.Name\<close> panics on a \<^verbatim>\<open>nil\<close> name; the body assigns to no field
  of \<open>e\<close> and reaches no provider.
\<close>

definition TerraformLink :: "Terraform \<Rightarrow> Instance \<Rightarrow> LinkOutcome" where
  "TerraformLink tf e =
     \<lparr>link_returned =
        (case Name e of
           None \<Rightarrow> Inl NilDereference
         | Some n \<Rightarrow> Inr (LiteralSelfLink tf ''aws_instance'' n)),
      link_receiver = e,
      link_calls = []\<rparr>"

section \<open>Find\<close>

text \<open>
  Lines 62 to 80: the filtered listing, and the instances of all its reservations.
\<close>

definition listInstances :: "AWSCloud \<Rightarrow> Instance \<Rightarrow> error + ec2_Instance list" where
  "listInstances cloud e =
     (let filters = BuildFilters cloud (Name e);
          filters = filters @ [NewEC2Filter ''instance-state-name''
                       [''pending'', ''running'', ''stopping'', ''stopped'']];
          request = \<lparr>Filters = filters\<rparr>
      in case DescribeInstances cloud request of
           Inl err \<Rightarrow> Inl (ErrListingInstances err)
         | Inr response \<Rightarrow>
             Inr (case response of
                    None \<Rightarrow> []
                  | Some r \<Rightarrow> concat (map Instances (Reservations r))))"

text \<open>Lines 105 to 121: the startup payload, fetched by a second query and decoded.\<close>

definition fetchUserData :: "AWSCloud \<Rightarrow> Externals \<Rightarrow> string \<Rightarrow> error + Resource option" where
  "fetchUserData cloud ext instanceId =
     (let request = \<lparr>Attribute = Some ''userData'', Attribute_InstanceId = Some instanceId\<rparr>
      in case DescribeInstanceAttribute cloud request of
           Inl err \<Rightarrow> Inl (ErrQueryUserData instanceId err)
         | Inr None \<Rightarrow> Inl NilDereference
         | Inr (Some response) \<Rightarrow>
             (case Output_UserData response of
                None \<Rightarrow> Inr None
              | Some v \<Rightarrow>
                  (case DecodeString ext (StringValue (AttributeValue_Value v)) of
                     Inl err \<Rightarrow> Inl (ErrDecodeUserData err)
                   | Inr b \<Rightarrow> Inr (Some (NewBytesResource b)))))"

text \<open>
  Lines 134 to 139: the loop over the network interfaces, with the flag as accumulator.
  \<^verbatim>\<open>ni.Association.PublicIp\<close> dereferences \<^verbatim>\<open>ni.Association\<close>.
\<close>

fun scanPublicIp :: "ec2_InstanceNetworkInterface list \<Rightarrow> bool \<Rightarrow> error + bool" where
  "scanPublicIp [] associatePublicIpAddress = Inr associatePublicIpAddress"
| "scanPublicIp (ni # nis) associatePublicIpAddress =
     (case Association ni of
        None \<Rightarrow> Inl NilDereference
      | Some assoc \<Rightarrow>
          scanPublicIp nis
            (if StringValue (PublicIp assoc) \<noteq> [] then True else associatePublicIpAddress))"

text \<open>
  Lines 150 to 161: the image reference reported for the actual instance, given the
  desired and the actual one, with the warnings logged.
\<close>

definition avoidSpuriousImageId ::
  "AWSCloud \<Rightarrow> string option \<Rightarrow> string option \<Rightarrow> string option \<times> warning list" where
  "avoidSpuriousImageId cloud eImageID actualImageID =
     (case (eImageID, actualImageID) of
        (Some ei, Some ai) \<Rightarrow>
          if ai \<noteq> ei then
            (case ResolveImage cloud ei of
               Inl err \<Rightarrow> (actualImageID, [WarnUnableToResolveImage ei err])
             | Inr None \<Rightarrow> (actualImageID, [WarnImageNotFound ei])
             | Inr (Some img) \<Rightarrow>
                 if StringValue (Image_ImageId img) = ai then (eImageID, [])
                 else (actualImageID, []))
          else (actualImageID, [])
      | _ \<Rightarrow> (actualImageID, []))"

text \<open>
  What a call of \<^verbatim>\<open>Find\<close> leaves behind: the returned pair (the error on the left, the
  \<^verbatim>\<open>nil\<close> descriptor as \<open>None\<close>), the receiver \<open>e\<close> as the call leaves it, and the
  warnings logged.
\<close>

record FindOutcome =
  returned :: "error + Instance option"
  receiver :: Instance
  warnings :: "warning list"

definition Find :: "AWSCloud \<Rightarrow> Externals \<Rightarrow> Instance \<Rightarrow> FindOutcome" where
  "Find cloud ext e =
     (let fail = (\<lambda>err. \<lparr>returned = Inl err, receiver = e, warnings = []\<rparr>) in
      case listInstances cloud e of
        Inl err \<Rightarrow> fail err
      | Inr instances \<Rightarrow>
          if length instances = 0 then
            \<lparr>returned = Inr None, receiver = e, warnings = []\<rparr>
          else if length instances \<noteq> 1 then
            (case Name e of
               None \<Rightarrow> fail NilDereference
             | Some n \<Rightarrow> fail (ErrMultipleInstances n))
          else
            (let i = hd instances in
             case ec2_InstanceId i of
               None \<Rightarrow> fail ErrInstanceIdNil
             | Some instanceId \<Rightarrow>
            (case fetchUserData cloud ext instanceId of
               Inl err \<Rightarrow> fail err
             | Inr userData \<Rightarrow>
            (case scanPublicIp (ec2_NetworkInterfaces i) False of
               Inl err \<Rightarrow> fail err
             | Inr associatePublicIpAddress \<Rightarrow>
            (case (case ec2_IamInstanceProfile i of
                     None \<Rightarrow> (Inr None, [])
                   | Some p \<Rightarrow>
                       (case nameFromIAMARN (Arn p) of
                          (Inl err, ws) \<Rightarrow> (Inl err, ws)
                        | (Inr name, ws) \<Rightarrow>
                            (Inr (Some \<lparr>IAMInstanceProfile_Name = name\<rparr>), ws))) of
               (Inl err, ws) \<Rightarrow> fail err
             | (Inr profile, ws) \<Rightarrow>
                 (let actual =
                        \<lparr>ID = ec2_InstanceId i,
                         UserData = userData,
                         Subnet = (case ec2_SubnetId i of
                                     None \<Rightarrow> None
                                   | Some s \<Rightarrow> Some \<lparr>Subnet_ID = ec2_SubnetId i\<rparr>),
                         PrivateIPAddress = ec2_PrivateIpAddress i,
                         Name = findNameTag ext (ec2_Tags i),
                         Tags = mapEC2TagsToMap ext (ec2_Tags i),
                         ImageID = ec2_ImageId i,
                         InstanceType = ec2_InstanceType i,
                         SSHKey = (case ec2_KeyName i of
                                     None \<Rightarrow> None
                                   | Some k \<Rightarrow> Some \<lparr>SSHKey_Name = ec2_KeyName i\<rparr>),
                         SecurityGroups =
                           map (\<lambda>sg. \<lparr>SecurityGroup_ID = GroupId sg\<rparr>) (ec2_SecurityGroups i),
                         AssociatePublicIP = Some associatePublicIpAddress,
                         IAMInstanceProfile = profile\<rparr>;
                      e' = e\<lparr>ID := ID actual\<rparr>;
                      (imageID, ws') = avoidSpuriousImageId cloud (ImageID e') (ImageID actual)
                  in \<lparr>returned = Inr (Some (actual\<lparr>ImageID := imageID\<rparr>)),
                      receiver = e',
                      warnings = ws @ ws'\<rparr>))))))"

section \<open>RenderAWS\<close>

text \<open>
  Lines 200 to 269, the branch taken when no resource was found, up to the launch
  request: the request or the error returned, and the provider calls made on the way.
  Line 208 dereferences \<^verbatim>\<open>e.Name\<close>, line 210 \<^verbatim>\<open>image\<close>, line 228 \<^verbatim>\<open>e.Subnet\<close>.
\<close>

definition buildRunInstancesInput ::
  "AWSAPITarget \<Rightarrow> Externals \<Rightarrow> Instance \<Rightarrow> (error + ec2_RunInstancesInput) \<times> call list" where
  "buildRunInstancesInput t ext e =
     (case ImageID e of
        None \<Rightarrow> (Inl (RequiredField ''ImageID''), [])
      | Some imageID \<Rightarrow>
     (let cs = [CallResolveImage imageID] in
      case ResolveImage (Cloud t) imageID of
        Inl err \<Rightarrow> (Inl (ProviderError err), cs)
      | Inr resolved \<Rightarrow>
     (case Name e of
        None \<Rightarrow> (Inl NilDereference, cs)
      | Some name \<Rightarrow>
     (case resolved of
        None \<Rightarrow> (Inl NilDereference, cs)
      | Some img \<Rightarrow>
     (let keyName = (case SSHKey e of None \<Rightarrow> None | Some k \<Rightarrow> SSHKey_Name k);
          securityGroupIDs = map SecurityGroup_ID (SecurityGroups e)
      in
      case Subnet e of
        None \<Rightarrow> (Inl NilDereference, cs)
      | Some subnet \<Rightarrow>
     (let networkInterfaces =
            [\<lparr>DeviceIndex = Some 0,
              AssociatePublicIpAddress = AssociatePublicIP e,
              Spec_SubnetId = Subnet_ID subnet,
              Spec_PrivateIpAddress = PrivateIPAddress e,
              Groups = securityGroupIDs\<rparr>]
      in
      case buildEphemeralDevices ext (InstanceType e) of
        Inl err \<Rightarrow> (Inl (ProviderError err), cs)
      | Inr blockDeviceMappings \<Rightarrow>
     (let bdms = map (\<lambda>(deviceName, bdm). ToEC2 bdm deviceName) blockDeviceMappings in
      case (case UserData e of
              None \<Rightarrow> Inr None
            | Some r \<Rightarrow>
                (case ResourceAsBytes r of
                   Inl err \<Rightarrow> Inl (ErrRenderUserData err)
                 | Inr d \<Rightarrow>
                     if length d > MaxUserDataSize then Inl (ErrUserDataTooLarge (length d))
                     else Inr (Some (EncodeToString ext d)))) of
        Inl err \<Rightarrow> (Inl err, cs)
      | Inr userData \<Rightarrow>
          (Inr \<lparr>Input_ImageId = Image_ImageId img,
                Input_InstanceType = InstanceType e,
                MinCount = Some 1,
                MaxCount = Some 1,
                Input_KeyName = keyName,
                Input_NetworkInterfaces = networkInterfaces,
                Input_BlockDeviceMappings = bdms,
                Input_UserData = userData,
                Input_IamInstanceProfile =
                  (case IAMInstanceProfile e of
                     None \<Rightarrow> None
                   | Some p \<Rightarrow> Some \<lparr>Spec_Name = IAMInstanceProfile_Name p\<rparr>)\<rparr>,
           cs))))))))"

text \<open>
  Lines 200 to 276: the launch itself, and the descriptor with the identity the
  provider assigned.
\<close>

definition createInstance ::
  "AWSAPITarget \<Rightarrow> Externals \<Rightarrow> Instance \<Rightarrow> (error + Instance) \<times> call list" where
  "createInstance t ext e =
     (case buildRunInstancesInput t ext e of
        (Inl err, cs) \<Rightarrow> (Inl err, cs)
      | (Inr request, cs) \<Rightarrow>
          (let cs = cs @ [CallRunInstances request] in
           case RunInstances (Cloud t) request of
             Inl err \<Rightarrow> (Inl (ErrCreatingInstance err), cs)
           | Inr None \<Rightarrow> (Inl NilDereference, cs)
           | Inr (Some response) \<Rightarrow>
               (case Instances response of
                  [] \<Rightarrow> (Inl IndexOutOfRange, cs)
                | i # _ \<Rightarrow> (Inr (e\<lparr>ID := ec2_InstanceId i\<rparr>), cs))))"

text \<open>
  What a call of \<^verbatim>\<open>RenderAWS\<close> leaves behind: the returned error (\<open>None\<close> for \<^verbatim>\<open>nil\<close>),
  the desired descriptor \<open>e\<close> as the call leaves it, and the provider calls in order.
\<close>

record RenderOutcome =
  render_error :: "error option"
  render_desired :: Instance
  render_calls :: "call list"

definition RenderAWS ::
  "AWSAPITarget \<Rightarrow> Externals \<Rightarrow> Instance option \<Rightarrow> Instance \<Rightarrow> Instance \<Rightarrow> RenderOutcome" where
  "RenderAWS t ext a e changes =
     (case (case a of None \<Rightarrow> createInstance t ext e | Some _ \<Rightarrow> (Inr e, [])) of
        (Inl err, cs) \<Rightarrow> \<lparr>render_error = Some err, render_desired = e, render_calls = cs\<rparr>
      | (Inr e', cs) \<Rightarrow>
          (case ID e' of
             None \<Rightarrow>
               \<lparr>render_error = Some NilDereference, render_desired = e', render_calls = cs\<rparr>
           | Some instanceId \<Rightarrow>
               \<lparr>render_error = map_option ProviderError (AddAWSTags t instanceId (Tags e')),
                render_desired = e',
                render_calls = cs @ [CallAddAWSTags instanceId (Tags e')]\<rparr>))"

section \<open>Concrete inputs\<close>

text \<open>
  A provider and helpers to run the operations on: the name tag is the value of the first
  tag whose key is \<open>Name\<close>, the listing answers with the given instances in one
  reservation, the alias \<open>stable\<close> resolves to the image \<open>ami-123\<close>, and a launch
  answers with the given instances.
\<close>

definition example_externals :: Externals where
  "example_externals =
     \<lparr>findNameTag =
        (\<lambda>tags. case filter (\<lambda>t. StringValue (Key t) = ''Name'') tags of
                   [] \<Rightarrow> None
                 | t # _ \<Rightarrow> Value t),
      mapEC2TagsToMap =
        (\<lambda>tags. map_of (map (\<lambda>t. (StringValue (Key t), StringValue (Value t))) (rev tags))),
      DecodeString = (\<lambda>s. if s = [] then Inr [] else Inl ''illegal base64 data''),
      EncodeToString = (\<lambda>b. []),
      buildEphemeralDevices = (\<lambda>instanceType. Inr [])\<rparr>"

definition example_terraform :: Terraform where
  "example_terraform =
     \<lparr>LiteralSelfLink = (\<lambda>resourceType name. resourceType @ ''.'' @ name @ ''.id'')\<rparr>"

definition example_cloud :: "ec2_Instance list \<Rightarrow> AWSCloud" where
  "example_cloud found =
     \<lparr>BuildFilters = (\<lambda>name. [\<lparr>Filter_Name = Some ''tag:Name'', Filter_Values = [name]\<rparr>]),
      DescribeInstances = (\<lambda>request. Inr (Some \<lparr>Reservations = [\<lparr>Instances = found\<rparr>]\<rparr>)),
      DescribeInstanceAttribute = (\<lambda>request. Inr (Some \<lparr>Output_UserData = None\<rparr>)),
      ResolveImage =
        (\<lambda>name. if name = ''stable'' then Inr (Some \<lparr>Image_ImageId = Some ''ami-123''\<rparr>)
                 else Inl ''no such image''),
      RunInstances = (\<lambda>request. Inr (Some \<lparr>Instances = found\<rparr>))\<rparr>"

definition example_target :: "ec2_Instance list \<Rightarrow> AWSAPITarget" where
  "example_target found = \<lparr>Cloud = example_cloud found, AddAWSTags = (\<lambda>instanceId tags. None)\<rparr>"

definition example_found :: "ec2_InstanceNetworkInterface list \<Rightarrow> ec2_Instance" where
  "example_found interfaces =
     \<lparr>ec2_InstanceId = Some ''i-0abc'',
      ec2_PrivateIpAddress = Some ''10.0.0.5'',
      ec2_InstanceType = Some ''m5.large'',
      ec2_ImageId = Some ''ami-123'',
      ec2_Tags = [\<lparr>Key = Some ''Name'', Value = Some ''node-1''\<rparr>],
      ec2_SubnetId = Some ''subnet-1'',
      ec2_KeyName = None,
      ec2_SecurityGroups = [],
      ec2_NetworkInterfaces = interfaces,
      ec2_IamInstanceProfile = None\<rparr>"

definition example_desired :: "string \<Rightarrow> Resource option \<Rightarrow> Instance" where
  "example_desired imageID payload =
     \<lparr>ID = None,
      UserData = payload,
      Subnet = Some \<lparr>Subnet_ID = Some ''subnet-1''\<rparr>,
      PrivateIPAddress = None,
      Name = Some ''node-1'',
      Tags = [''Name'' \<mapsto> ''node-1''],
      ImageID = Some imageID,
      InstanceType = Some ''m5.large'',
      SSHKey = None,
      SecurityGroups = [],
      AssociatePublicIP = Some False,
      IAMInstanceProfile = None\<rparr>"

section \<open>Auxiliary facts\<close>

lemma Split_not_Nil: "Split s sep \<noteq> []"
  by (induction s) (auto split: list.splits)

lemma Split_no_sep: "sep \<notin> set s \<Longrightarrow> Split s sep = [s]"
  by (induction s) auto

lemma Split_append_sep: "Split (xs @ sep # ys) sep = Split xs sep @ Split ys sep"
  by (induction xs) (auto simp: Split_not_Nil split: list.splits)

lemma last_Split:
  assumes "sep \<notin> set tok" and "s = tok \<or> s = pre @ sep # tok"
  shows "Split s sep ! (length (Split s sep) - 1) = tok"
proof -
  have "last (Split s sep) = tok"
    using assms by (auto simp: Split_no_sep Split_append_sep)
  then show ?thesis
    by (simp add: last_conv_nth Split_not_Nil)
qed

lemma nameFromIAMARN_Inr: "\<exists>name ws. nameFromIAMARN arn = (Inr name, ws)"
  by (cases arn) (simp_all add: nameFromIAMARN_def Let_def Split_not_Nil)

lemma scanPublicIp_Inr:
  "scanPublicIp nis acc = Inr b \<longleftrightarrow>
     (\<forall>ni\<in>set nis. Association ni \<noteq> None) \<and>
     b = (acc \<or> (\<exists>ni\<in>set nis. \<exists>a. Association ni = Some a \<and> StringValue (PublicIp a) \<noteq> []))"
  by (induction nis arbitrary: acc) (auto split: option.splits)

lemma scanPublicIp_Inl:
  "scanPublicIp nis acc = Inl err \<longleftrightarrow>
     (\<exists>ni\<in>set nis. Association ni = None) \<and> err = NilDereference"
  by (induction nis arbitrary: acc) (auto split: option.splits)

lemma Find_one:
  assumes "listInstances cloud e = Inr [i]"
    and "ec2_InstanceId i = Some instanceId"
    and "fetchUserData cloud ext instanceId = Inr userData"
    and "scanPublicIp (ec2_NetworkInterfaces i) False = Inr flag"
  shows "\<exists>actual ws.
      Find cloud ext e =
        \<lparr>returned = Inr (Some actual), receiver = e\<lparr>ID := Some instanceId\<rparr>,
         warnings = ws @ snd (avoidSpuriousImageId cloud (ImageID e) (ec2_ImageId i))\<rparr> \<and>
      ID actual = Some instanceId \<and>
      PrivateIPAddress actual = ec2_PrivateIpAddress i \<and>
      InstanceType actual = ec2_InstanceType i \<and>
      Name actual = findNameTag ext (ec2_Tags i) \<and>
      Tags actual = mapEC2TagsToMap ext (ec2_Tags i) \<and>
      UserData actual = userData \<and>
      AssociatePublicIP actual = Some flag \<and>
      ImageID actual = fst (avoidSpuriousImageId cloud (ImageID e) (ec2_ImageId i))"
proof (cases "ec2_IamInstanceProfile i")
  case None
  then show ?thesis
    using assms by (simp add: Find_def Let_def split: prod.splits)
next
  case (Some p)
  obtain name ws where "nameFromIAMARN (Arn p) = (Inr name, ws)"
    using nameFromIAMARN_Inr by blast
  then show ?thesis
    using assms Some by (simp add: Find_def Let_def split: prod.splits)
qed


lemma Find_list_error:
  "listInstances cloud e = Inl err \<Longrightarrow>
   Find cloud ext e = \<lparr>returned = Inl err, receiver = e, warnings = []\<rparr>"
  by (simp add: Find_def)

lemma Find_none:
  "listInstances cloud e = Inr [] \<Longrightarrow>
   Find cloud ext e = \<lparr>returned = Inr None, receiver = e, warnings = []\<rparr>"
  by (simp add: Find_def)

lemma Find_many:
  "listInstances cloud e = Inr instances \<Longrightarrow> 2 \<le> length instances \<Longrightarrow>
   Find cloud ext e =
     \<lparr>returned = Inl (case Name e of None \<Rightarrow> NilDereference | Some n \<Rightarrow> ErrMultipleInstances n),
      receiver = e, warnings = []\<rparr>"
proof -
  assume l: "listInstances cloud e = Inr instances" and "2 \<le> length instances"
  then have "instances \<noteq> []" and "length instances \<noteq> Suc 0"
    by auto
  then show ?thesis
    using l by (simp add: Find_def split: option.splits)
qed

lemma Find_no_id:
  "listInstances cloud e = Inr [i] \<Longrightarrow> ec2_InstanceId i = None \<Longrightarrow>
   Find cloud ext e = \<lparr>returned = Inl ErrInstanceIdNil, receiver = e, warnings = []\<rparr>"
  by (simp add: Find_def)

lemma Find_userdata_error:
  "listInstances cloud e = Inr [i] \<Longrightarrow> ec2_InstanceId i = Some instanceId \<Longrightarrow>
   fetchUserData cloud ext instanceId = Inl err \<Longrightarrow>
   Find cloud ext e = \<lparr>returned = Inl err, receiver = e, warnings = []\<rparr>"
  by (simp add: Find_def)

lemma Find_scan_error:
  "listInstances cloud e = Inr [i] \<Longrightarrow> ec2_InstanceId i = Some instanceId \<Longrightarrow>
   fetchUserData cloud ext instanceId = Inr userData \<Longrightarrow>
   scanPublicIp (ec2_NetworkInterfaces i) False = Inl err \<Longrightarrow>
   Find cloud ext e = \<lparr>returned = Inl err, receiver = e, warnings = []\<rparr>"
  by (simp add: Find_def)



lemma build_calls:
  "snd (buildRunInstancesInput t ext e) =
     (case ImageID e of None \<Rightarrow> [] | Some imageID \<Rightarrow> [CallResolveImage imageID])"
  by (simp add: buildRunInstancesInput_def Let_def split: option.splits sum.splits)

lemma build_oversized:
  assumes "UserData e = Some r" and "ResourceAsBytes r = Inr d" and "MaxUserDataSize < length d"
  shows "\<exists>err. fst (buildRunInstancesInput t ext e) = Inl err"
  using assms
  by (simp add: buildRunInstancesInput_def Let_def split: option.splits sum.splits)

lemma build_too_large:
  assumes "UserData e = Some r" and "ResourceAsBytes r = Inr d" and "MaxUserDataSize < length d"
    and "ImageID e = Some imageID" and "ResolveImage (Cloud t) imageID = Inr (Some img)"
    and "Name e = Some name" and "Subnet e = Some subnet"
    and "buildEphemeralDevices ext (InstanceType e) = Inr bdms"
  shows "buildRunInstancesInput t ext e =
           (Inl (ErrUserDataTooLarge (length d)), [CallResolveImage imageID])"
  using assms by (simp add: buildRunInstancesInput_def Let_def)

lemma create_failed_build:
  "fst (buildRunInstancesInput t ext e) = Inl err \<Longrightarrow>
   createInstance t ext e = (Inl err, snd (buildRunInstancesInput t ext e))"
  by (cases "buildRunInstancesInput t ext e") (simp add: createInstance_def)

lemma create_Inr:
  assumes "createInstance t ext e = (Inr e', cs)"
  shows "\<exists>imageID request response i rest.
           ImageID e = Some imageID \<and>
           cs = [CallResolveImage imageID, CallRunInstances request] \<and>
           RunInstances (Cloud t) request = Inr (Some response) \<and>
           Instances response = i # rest \<and>
           e' = e\<lparr>ID := ec2_InstanceId i\<rparr>"
proof (cases "buildRunInstancesInput t ext e")
  case (Pair r cs0)
  with assms obtain request where r: "r = Inr request"
    by (cases r) (auto simp: createInstance_def)
  from build_calls [of t ext e] Pair r obtain imageID
    where "ImageID e = Some imageID" and "cs0 = [CallResolveImage imageID]"
    by (cases "ImageID e") (auto simp: buildRunInstancesInput_def)
  then show ?thesis
    using assms Pair r
    by (auto simp: createInstance_def Let_def split: sum.splits option.splits list.splits)
qed

lemma Find_receiver:
  "receiver (Find cloud ext e) = e \<or>
   (\<exists>actual. returned (Find cloud ext e) = Inr (Some actual) \<and>
      receiver (Find cloud ext e) = e\<lparr>ID := ID actual\<rparr>)"
proof (cases "listInstances cloud e")
  case (Inl err)
  then show ?thesis by (simp add: Find_list_error)
next
  case (Inr instances)
  consider "instances = []" | "2 \<le> length instances" | i where "instances = [i]"
    by (cases instances; cases "tl instances") auto
  then show ?thesis
  proof cases
    case 1
    then show ?thesis using Inr by (simp add: Find_none)
  next
    case 2
    then show ?thesis using Inr by (simp add: Find_many)
  next
    case 3
    note one = Inr [unfolded 3]
    show ?thesis
    proof (cases "ec2_InstanceId i")
      case None
      then show ?thesis using one by (simp add: Find_no_id)
    next
      case (Some instanceId)
      show ?thesis
      proof (cases "fetchUserData cloud ext instanceId")
        case (Inl err)
        then show ?thesis using one Some by (simp add: Find_userdata_error)
      next
        case ud: (Inr userData)
        show ?thesis
        proof (cases "scanPublicIp (ec2_NetworkInterfaces i) False")
          case (Inl err)
          then show ?thesis using one Some ud by (simp add: Find_scan_error)
        next
          case (Inr flag)
          from Find_one [OF one Some ud Inr] show ?thesis by auto
        qed
      qed
    qed
  qed
qed

lemma Find_success:
  assumes "listInstances cloud e = Inr [i]"
    and "returned (Find cloud ext e) = Inr (Some actual)"
  shows "\<exists>instanceId userData flag.
           ec2_InstanceId i = Some instanceId \<and>
           fetchUserData cloud ext instanceId = Inr userData \<and>
           scanPublicIp (ec2_NetworkInterfaces i) False = Inr flag"
proof (cases "ec2_InstanceId i")
  case None
  then show ?thesis using assms by (simp add: Find_no_id)
next
  case (Some instanceId)
  show ?thesis
  proof (cases "fetchUserData cloud ext instanceId")
    case (Inl err)
    then show ?thesis using assms Some by (simp add: Find_userdata_error)
  next
    case ud: (Inr userData)
    show ?thesis
    proof (cases "scanPublicIp (ec2_NetworkInterfaces i) False")
      case (Inl err)
      then show ?thesis using assms Some ud by (simp add: Find_scan_error)
    next
      case (Inr flag)
      then show ?thesis using Some ud by simp
    qed
  qed
qed

lemmas example_defs =
  example_externals_def example_cloud_def example_target_def example_found_def
  example_desired_def

lemmas Find_defs =
  Find_def listInstances_def fetchUserData_def avoidSpuriousImageId_def NewEC2Filter_def
  StringValue_def NewBytesResource_def

section \<open>The claims\<close>

subsection \<open>Discovery by multiplicity\<close>

text \<open>
  Claim C1, as amended. For a desired descriptor with a stable name whose listing succeeds:
  with no matching instance \<^verbatim>\<open>Find\<close> returns \<^verbatim>\<open>nil\<close> and no error; with two or more it
  fails with the multiplicity error and returns no value; with exactly one it fails with
  the missing-identifier error when the instance has no identifier, with the error of the
  startup-payload fetch when that query or its decoding fails, and returns the normalized
  descriptor (identity, private address, instance class, name tag, tags, payload) when the
  instance has an identifier, the payload is fetched and every network attachment carries
  an association.
\<close>

theorem Find_by_multiplicity:
  assumes "Name e = Some n" and "listInstances cloud e = Inr instances"
  shows "(instances = [] \<longrightarrow> returned (Find cloud ext e) = Inr None) \<and>
         (2 \<le> length instances \<longrightarrow>
            returned (Find cloud ext e) = Inl (ErrMultipleInstances n)) \<and>
         (instances = [i] \<and> ec2_InstanceId i = None \<longrightarrow>
            returned (Find cloud ext e) = Inl ErrInstanceIdNil) \<and>
         (instances = [i] \<and> ec2_InstanceId i = Some instanceId \<and>
          fetchUserData cloud ext instanceId = Inl err \<longrightarrow>
            returned (Find cloud ext e) = Inl err) \<and>
         (instances = [i] \<and> ec2_InstanceId i = Some instanceId \<and>
          fetchUserData cloud ext instanceId = Inr userData \<and>
          (\<forall>ni\<in>set (ec2_NetworkInterfaces i). Association ni \<noteq> None) \<longrightarrow>
            (\<exists>actual. returned (Find cloud ext e) = Inr (Some actual) \<and>
               ID actual = Some instanceId \<and>
               PrivateIPAddress actual = ec2_PrivateIpAddress i \<and>
               InstanceType actual = ec2_InstanceType i \<and>
               Name actual = findNameTag ext (ec2_Tags i) \<and>
               Tags actual = mapEC2TagsToMap ext (ec2_Tags i) \<and>
               UserData actual = userData))"
proof (intro conjI impI)
  assume "instances = []"
  then show "returned (Find cloud ext e) = Inr None"
    using assms by (simp add: Find_none)
next
  assume "2 \<le> length instances"
  then show "returned (Find cloud ext e) = Inl (ErrMultipleInstances n)"
    using assms by (simp add: Find_many)
next
  assume "instances = [i] \<and> ec2_InstanceId i = None"
  then show "returned (Find cloud ext e) = Inl ErrInstanceIdNil"
    using assms by (simp add: Find_no_id)
next
  assume "instances = [i] \<and> ec2_InstanceId i = Some instanceId \<and>
          fetchUserData cloud ext instanceId = Inl err"
  then show "returned (Find cloud ext e) = Inl err"
    using assms by (simp add: Find_userdata_error)
next
  assume h: "instances = [i] \<and> ec2_InstanceId i = Some instanceId \<and>
          fetchUserData cloud ext instanceId = Inr userData \<and>
          (\<forall>ni\<in>set (ec2_NetworkInterfaces i). Association ni \<noteq> None)"
  then obtain flag where s: "scanPublicIp (ec2_NetworkInterfaces i) False = Inr flag"
    by (simp add: scanPublicIp_Inr)
  have l: "listInstances cloud e = Inr [i]"
    using assms(2) h by simp
  have "ec2_InstanceId i = Some instanceId"
    and "fetchUserData cloud ext instanceId = Inr userData"
    using h by simp_all
  from Find_one [OF l this s]
  show "\<exists>actual. returned (Find cloud ext e) = Inr (Some actual) \<and>
               ID actual = Some instanceId \<and>
               PrivateIPAddress actual = ec2_PrivateIpAddress i \<and>
               InstanceType actual = ec2_InstanceType i \<and>
               Name actual = findNameTag ext (ec2_Tags i) \<and>
               Tags actual = mapEC2TagsToMap ext (ec2_Tags i) \<and>
               UserData actual = userData"
    by auto
qed

theorem Find_by_multiplicity_witness:
  "returned (Find (example_cloud []) example_externals (example_desired ''stable'' None))
     = Inr None \<and>
   returned (Find (example_cloud [example_found [], example_found []]) example_externals
       (example_desired ''stable'' None))
     = Inl (ErrMultipleInstances ''node-1'') \<and>
   (\<exists>actual.
      returned (Find (example_cloud [example_found []]) example_externals
          (example_desired ''stable'' None))
        = Inr (Some actual) \<and>
      ID actual = Some ''i-0abc'' \<and> Name actual = Some ''node-1'')"
proof -
  let ?e = "example_desired ''stable'' None"
  have n: "Name ?e = Some ''node-1''"
    by (simp add: example_desired_def)
  have l: "listInstances (example_cloud found) ?e = Inr found" for found
    by (simp add: listInstances_def example_cloud_def)
  have u: "fetchUserData (example_cloud [example_found []]) example_externals ''i-0abc''
             = Inr None"
    by (simp add: fetchUserData_def example_cloud_def)
  have i: "ec2_InstanceId (example_found []) = Some ''i-0abc''"
    and a: "\<forall>ni\<in>set (ec2_NetworkInterfaces (example_found [])). Association ni \<noteq> None"
    and t: "findNameTag example_externals (ec2_Tags (example_found [])) = Some ''node-1''"
    by (simp_all add: example_found_def example_externals_def StringValue_def)
  have "returned (Find (example_cloud []) example_externals ?e) = Inr None"
    using Find_by_multiplicity [OF n l] by simp
  moreover have "returned (Find (example_cloud [example_found [], example_found []])
      example_externals ?e) = Inl (ErrMultipleInstances ''node-1'')"
    using Find_by_multiplicity [OF n l] by simp
  moreover have "\<exists>actual.
      returned (Find (example_cloud [example_found []]) example_externals ?e)
        = Inr (Some actual) \<and>
      ID actual = Some ''i-0abc'' \<and> Name actual = Some ''node-1''"
    using Find_by_multiplicity [OF n l, of "[example_found []]" example_externals
        "example_found []" "''i-0abc''" _ None] i a t u
    by auto
  ultimately show ?thesis by simp
qed

text \<open>
  Without the conditions on the single match the statement fails: one matching instance without an identifier makes \<^verbatim>\<open>Find\<close>
  return the error of line 94, not a descriptor.
\<close>

theorem Find_single_match_without_id:
  "listInstances (example_cloud [(example_found [])\<lparr>ec2_InstanceId := None\<rparr>])
       (example_desired ''stable'' None)
     = Inr [(example_found [])\<lparr>ec2_InstanceId := None\<rparr>] \<and>
   returned (Find (example_cloud [(example_found [])\<lparr>ec2_InstanceId := None\<rparr>])
       example_externals (example_desired ''stable'' None))
     = Inl ErrInstanceIdNil"
  by (simp add: Find_defs example_defs)

subsection \<open>The image reference\<close>

text \<open>
  Claim C2. When discovery finds one instance and the desired image reference differs
  from the instance's image identifier, \<^verbatim>\<open>Find\<close> returns a descriptor whatever the alias
  resolution answers: if it yields the actual identifier, the descriptor's image
  reference is the desired reference; if it yields another identifier, finds nothing or
  fails, the actual identifier stays, and in the last two cases a warning is logged.
\<close>

theorem Find_image_alias:
  assumes "listInstances cloud e = Inr [i]"
    and "ec2_InstanceId i = Some instanceId"
    and "fetchUserData cloud ext instanceId = Inr userData"
    and "\<forall>ni\<in>set (ec2_NetworkInterfaces i). Association ni \<noteq> None"
    and "ImageID e = Some desired" and "ec2_ImageId i = Some actualId"
    and "actualId \<noteq> desired"
  shows "\<exists>actual. returned (Find cloud ext e) = Inr (Some actual) \<and>
           (case ResolveImage cloud desired of
              Inr (Some img) \<Rightarrow>
                ImageID actual =
                  (if StringValue (Image_ImageId img) = actualId then Some desired
                   else Some actualId)
            | Inr None \<Rightarrow>
                ImageID actual = Some actualId \<and>
                WarnImageNotFound desired \<in> set (warnings (Find cloud ext e))
            | Inl err \<Rightarrow>
                ImageID actual = Some actualId \<and>
                WarnUnableToResolveImage desired err \<in> set (warnings (Find cloud ext e)))"
proof -
  from assms(4) obtain flag where "scanPublicIp (ec2_NetworkInterfaces i) False = Inr flag"
    by (simp add: scanPublicIp_Inr)
  from Find_one [OF assms(1-3) this] obtain actual ws where
    F: "Find cloud ext e =
        \<lparr>returned = Inr (Some actual), receiver = e\<lparr>ID := Some instanceId\<rparr>,
         warnings = ws @ snd (avoidSpuriousImageId cloud (ImageID e) (ec2_ImageId i))\<rparr>"
    and I: "ImageID actual = fst (avoidSpuriousImageId cloud (ImageID e) (ec2_ImageId i))"
    by blast
  show ?thesis
    unfolding F using I assms(5-7)
    by (simp add: avoidSpuriousImageId_def split: sum.splits option.splits)
qed

theorem Find_image_alias_witness:
  "\<exists>actual.
     returned (Find (example_cloud [example_found []]) example_externals
         ((example_desired ''stable'' None)))
       = Inr (Some actual) \<and>
     ImageID actual = Some ''stable''"
proof -
  let ?e = "example_desired ''stable'' None"
  let ?c = "example_cloud [example_found []]"
  have "listInstances ?c ?e = Inr [example_found []]"
    by (simp add: listInstances_def example_cloud_def)
  moreover have "ec2_InstanceId (example_found []) = Some ''i-0abc''"
    by (simp add: example_found_def)
  moreover have "fetchUserData ?c example_externals ''i-0abc'' = Inr None"
    by (simp add: fetchUserData_def example_cloud_def)
  moreover have "\<forall>ni\<in>set (ec2_NetworkInterfaces (example_found [])). Association ni \<noteq> None"
    by (simp add: example_found_def)
  moreover have "ImageID ?e = Some ''stable''"
    by (simp add: example_desired_def)
  moreover have "ec2_ImageId (example_found []) = Some ''ami-123''"
    by (simp add: example_found_def)
  moreover have "''ami-123'' \<noteq> ''stable''"
    by simp
  ultimately show ?thesis
    using Find_image_alias [of ?c ?e "example_found []" "''i-0abc''" example_externals None
        "''stable''" "''ami-123''"]
    by (simp add: example_cloud_def StringValue_def)
qed

subsection \<open>The public-address flag\<close>

text \<open>
  On the calls that return a descriptor, \<^verbatim>\<open>AssociatePublicIP\<close> is set, and it is true
  exactly when some network attachment of the instance has an association with a
  non-empty public address; the flag of the desired descriptor is not read. A call
  returns a descriptor only when every attachment carries an association.
\<close>

lemma Find_flag_when_returned:
  assumes "listInstances cloud e = Inr [i]"
    and "returned (Find cloud ext e) = Inr (Some actual)"
  shows "AssociatePublicIP actual =
           Some (\<exists>ni\<in>set (ec2_NetworkInterfaces i).
                   \<exists>assoc. Association ni = Some assoc \<and> StringValue (PublicIp assoc) \<noteq> [])"
proof -
  from Find_success [OF assms] obtain instanceId userData flag where
    *: "ec2_InstanceId i = Some instanceId"
       "fetchUserData cloud ext instanceId = Inr userData"
       "scanPublicIp (ec2_NetworkInterfaces i) False = Inr flag"
    by blast
  from Find_one [OF assms(1) *] assms(2)
  have "AssociatePublicIP actual = Some flag" by auto
  with *(3) show ?thesis
    by (simp add: scanPublicIp_Inr)
qed

lemma Find_flag_when_returned_example:
  "\<exists>actual.
     returned (Find (example_cloud [example_found
         [\<lparr>Association = Some \<lparr>PublicIp = None\<rparr>\<rparr>,
          \<lparr>Association = Some \<lparr>PublicIp = Some ''203.0.113.7''\<rparr>\<rparr>]])
       example_externals (example_desired ''stable'' None)) = Inr (Some actual) \<and>
     AssociatePublicIP actual = Some True \<and>
     AssociatePublicIP (example_desired ''stable'' None) = Some False"
proof -
  let ?i = "example_found
         [\<lparr>Association = Some \<lparr>PublicIp = None\<rparr>\<rparr>,
          \<lparr>Association = Some \<lparr>PublicIp = Some ''203.0.113.7''\<rparr>\<rparr>]"
  let ?e = "example_desired ''stable'' None"
  have l: "listInstances (example_cloud [?i]) ?e = Inr [?i]"
    by (simp add: listInstances_def example_cloud_def)
  obtain actual where
    r: "returned (Find (example_cloud [?i]) example_externals ?e) = Inr (Some actual)"
    by (simp add: Find_defs example_defs)
  from Find_flag_when_returned [OF l r] have "AssociatePublicIP actual = Some True"
    by (simp add: example_found_def StringValue_def)
  with r show ?thesis
    by (simp add: example_desired_def)
qed

lemma Find_returned_has_associations:
  assumes "listInstances cloud e = Inr [i]"
    and "returned (Find cloud ext e) = Inr (Some actual)"
  shows "\<forall>ni\<in>set (ec2_NetworkInterfaces i). Association ni \<noteq> None"
proof -
  from Find_success [OF assms] obtain flag where
    "scanPublicIp (ec2_NetworkInterfaces i) False = Inr flag"
    by blast
  then show ?thesis
    by (simp add: scanPublicIp_Inr)
qed

text \<open>
  Claim C5 asks that the flag of a discovered instance be true whenever one of its
  network attachments carries a non-empty public address. On an instance whose first
  attachment has the public address \<open>203.0.113.7\<close> and whose second attachment has no
  association, the scan of lines 135 to 139 sets the flag and then dereferences the
  \<^verbatim>\<open>nil\<close> association: \<^verbatim>\<open>Find\<close> panics and reports no flag.
\<close>

theorem Find_public_address_flag_lost:
  "returned (Find (example_cloud [example_found
       [\<lparr>Association = Some \<lparr>PublicIp = Some ''203.0.113.7''\<rparr>\<rparr>,
        \<lparr>Association = None\<rparr>]])
     example_externals (example_desired ''stable'' None)) = Inl NilDereference"
  by (simp add: Find_defs example_defs)

subsection \<open>What discovery writes\<close>

text \<open>
  Claim C9. \<^verbatim>\<open>Find\<close> leaves every field of the descriptor it is called on as it was,
  except \<^verbatim>\<open>ID\<close>: payload, subnet, private address, name, tags, image reference, instance
  class, key, security groups, public-address flag and profile are unchanged.
\<close>

theorem Find_writes_only_ID:
  "UserData (receiver (Find cloud ext e)) = UserData e \<and>
   Subnet (receiver (Find cloud ext e)) = Subnet e \<and>
   PrivateIPAddress (receiver (Find cloud ext e)) = PrivateIPAddress e \<and>
   Name (receiver (Find cloud ext e)) = Name e \<and>
   Tags (receiver (Find cloud ext e)) = Tags e \<and>
   ImageID (receiver (Find cloud ext e)) = ImageID e \<and>
   InstanceType (receiver (Find cloud ext e)) = InstanceType e \<and>
   SSHKey (receiver (Find cloud ext e)) = SSHKey e \<and>
   SecurityGroups (receiver (Find cloud ext e)) = SecurityGroups e \<and>
   AssociatePublicIP (receiver (Find cloud ext e)) = AssociatePublicIP e \<and>
   IAMInstanceProfile (receiver (Find cloud ext e)) = IAMInstanceProfile e \<and>
   (\<exists>x. receiver (Find cloud ext e) = e\<lparr>ID := x\<rparr>)"
proof -
  from Find_receiver [of cloud ext e]
  have ex: "\<exists>x. receiver (Find cloud ext e) = e\<lparr>ID := x\<rparr>"
  proof
    assume "receiver (Find cloud ext e) = e"
    then have "receiver (Find cloud ext e) = e\<lparr>ID := ID e\<rparr>" by simp
    then show ?thesis ..
  next
    assume "\<exists>actual. returned (Find cloud ext e) = Inr (Some actual) \<and>
      receiver (Find cloud ext e) = e\<lparr>ID := ID actual\<rparr>"
    then show ?thesis by blast
  qed
  then obtain x where r: "receiver (Find cloud ext e) = e\<lparr>ID := x\<rparr>" ..
  show ?thesis
  proof (intro conjI)
    show "\<exists>x. receiver (Find cloud ext e) = e\<lparr>ID := x\<rparr>" by (rule ex)
  qed (simp_all add: r)
qed

theorem Find_writes_only_ID_witness:
  "Tags (receiver (Find (example_cloud [example_found []]) example_externals
       (example_desired ''stable'' None))) = [''Name'' \<mapsto> ''node-1''] \<and>
   ID (receiver (Find (example_cloud [example_found []]) example_externals
       (example_desired ''stable'' None))) = Some ''i-0abc''"
proof -
  have "ID (receiver (Find (example_cloud [example_found []]) example_externals
       (example_desired ''stable'' None))) = Some ''i-0abc''"
    by (simp add: Find_defs example_defs)
  then show ?thesis
    using Find_writes_only_ID [of "example_cloud [example_found []]" example_externals
        "example_desired ''stable'' None"]
    by (simp add: example_desired_def)
qed

subsection \<open>An attachment without an association\<close>

text \<open>
  Claim C10 asks that the scan of the network attachments never faults. On an instance
  whose only attachment carries no association, \<^verbatim>\<open>ni.Association.PublicIp\<close> dereferences
  \<^verbatim>\<open>nil\<close> and \<^verbatim>\<open>Find\<close> panics.
\<close>

theorem Find_panics_on_missing_association:
  "returned (Find (example_cloud [example_found [\<lparr>Association = None\<rparr>]]) example_externals
      (example_desired ''stable'' None)) = Inl NilDereference"
  by (simp add: Find_defs example_defs)

subsection \<open>The payload ceiling\<close>

text \<open>
  Claim C3, as amended. On the create path, a payload that renders to more than
  \<open>MaxUserDataSize\<close> bytes makes \<^verbatim>\<open>RenderAWS\<close> fail, with the descriptor unchanged and
  neither the launch call nor the tag call made: the only provider call before the
  failure is the resolution of the image reference, when there is one. When the image
  resolves, name and subnet are present and the ephemeral devices are built, the error
  is the capacity fault with the actual size.
\<close>

theorem RenderAWS_oversized_UserData:
  assumes "UserData e = Some r" and "ResourceAsBytes r = Inr d" and "MaxUserDataSize < length d"
  shows "(\<exists>err. render_error (RenderAWS t ext None e changes) = Some err) \<and>
         render_desired (RenderAWS t ext None e changes) = e \<and>
         render_calls (RenderAWS t ext None e changes) =
           (case ImageID e of None \<Rightarrow> [] | Some imageID \<Rightarrow> [CallResolveImage imageID]) \<and>
         (\<forall>imageID img name subnet bdms.
            ImageID e = Some imageID \<and> ResolveImage (Cloud t) imageID = Inr (Some img) \<and>
            Name e = Some name \<and> Subnet e = Some subnet \<and>
            buildEphemeralDevices ext (InstanceType e) = Inr bdms \<longrightarrow>
            render_error (RenderAWS t ext None e changes) =
              Some (ErrUserDataTooLarge (length d)))"
proof -
  from build_oversized [OF assms] obtain err
    where err: "fst (buildRunInstancesInput t ext e) = Inl err" by blast
  have R: "RenderAWS t ext None e changes =
             \<lparr>render_error = Some err, render_desired = e,
              render_calls = snd (buildRunInstancesInput t ext e)\<rparr>"
    by (simp add: RenderAWS_def create_failed_build [OF err])
  have "err = ErrUserDataTooLarge (length d)"
    if "ImageID e = Some imageID" "ResolveImage (Cloud t) imageID = Inr (Some img)"
       "Name e = Some name" "Subnet e = Some subnet"
       "buildEphemeralDevices ext (InstanceType e) = Inr bdms"
    for imageID img name subnet bdms
    using build_too_large [OF assms that] err by simp
  then show ?thesis
    unfolding R by (auto simp: build_calls)
qed

theorem RenderAWS_oversized_UserData_witness:
  "render_error (RenderAWS (example_target []) example_externals None
       (example_desired ''stable'' (Some (BytesResource (replicate 16385 0))))
       (example_desired ''stable'' None))
     = Some (ErrUserDataTooLarge 16385)"
proof -
  let ?e = "example_desired ''stable'' (Some (BytesResource (replicate 16385 0)))"
  have "UserData ?e = Some (BytesResource (replicate 16385 0))"
    by (simp add: example_desired_def)
  moreover have "ResourceAsBytes (BytesResource (replicate 16385 0)) = Inr (replicate 16385 0)"
    by simp
  moreover have "MaxUserDataSize < length (replicate 16385 (0 :: byte))"
    by (simp add: MaxUserDataSize_def)
  ultimately show ?thesis
    using RenderAWS_oversized_UserData [of ?e "BytesResource (replicate 16385 0)"
        "replicate 16385 0" "example_target []" example_externals "example_desired ''stable'' None"]
    by (simp add: example_defs)
qed

text \<open>
  The rejection does not come before every provider call: the oversized payload is
  rejected after the provider has been asked to resolve the image.
\<close>

theorem RenderAWS_resolves_image_before_size_check:
  "render_error (RenderAWS (example_target []) example_externals None
       (example_desired ''stable'' (Some (BytesResource (replicate 16385 0))))
       (example_desired ''stable'' None))
     = Some (ErrUserDataTooLarge 16385) \<and>
   render_calls (RenderAWS (example_target []) example_externals None
       (example_desired ''stable'' (Some (BytesResource (replicate 16385 0))))
       (example_desired ''stable'' None))
     = [CallResolveImage ''stable'']"
  by (simp add: RenderAWS_def createInstance_def buildRunInstancesInput_def example_defs
      MaxUserDataSize_def)

subsection \<open>Tag reconciliation\<close>

text \<open>
  Claim C4. When \<^verbatim>\<open>RenderAWS\<close> returns no error, whatever \<open>changes\<close> holds, its last
  provider call is \<^verbatim>\<open>AddAWSTags\<close> on the identity the descriptor then carries, with the
  desired tags, and no earlier call is a tag call. On an existing resource it is the only
  call and the identity is the one already known; after a creation it follows the image
  resolution and the launch, and the identity is the one the launch returned.
\<close>

theorem RenderAWS_tags_once:
  assumes "render_error (RenderAWS t ext a e changes) = None"
  shows "\<exists>before instanceId.
           render_calls (RenderAWS t ext a e changes) =
             before @ [CallAddAWSTags instanceId (Tags e)] \<and>
           \<not> (\<exists>c\<in>set before. isAddAWSTags c) \<and>
           AddAWSTags t instanceId (Tags e) = None \<and>
           ID (render_desired (RenderAWS t ext a e changes)) = Some instanceId \<and>
           (a \<noteq> None \<longrightarrow> before = [] \<and> ID e = Some instanceId) \<and>
           (a = None \<longrightarrow>
              (\<exists>imageID request response i rest.
                 before = [CallResolveImage imageID, CallRunInstances request] \<and>
                 RunInstances (Cloud t) request = Inr (Some response) \<and>
                 Instances response = i # rest \<and> ec2_InstanceId i = Some instanceId))"
proof (cases a)
  case (Some actual)
  with assms show ?thesis
    by (auto simp: RenderAWS_def split: option.splits)
next
  case None
  obtain r cs where c: "createInstance t ext e = (r, cs)"
    by (cases "createInstance t ext e")
  with assms None obtain e' where r: "r = Inr e'"
    by (cases r) (auto simp: RenderAWS_def)
  from create_Inr [OF c [unfolded r]] obtain imageID request response i rest
    where *: "cs = [CallResolveImage imageID, CallRunInstances request]"
      "RunInstances (Cloud t) request = Inr (Some response)"
      "Instances response = i # rest" "e' = e\<lparr>ID := ec2_InstanceId i\<rparr>"
    by blast
  from assms None c r * obtain instanceId where "ec2_InstanceId i = Some instanceId"
    by (cases "ec2_InstanceId i") (auto simp: RenderAWS_def)
  with assms None c r * show ?thesis
    by (auto simp: RenderAWS_def)
qed


theorem RenderAWS_tags_once_witness:
  "render_error (RenderAWS (example_target [example_found []]) example_externals None
       (example_desired ''stable'' None) (example_desired ''stable'' None)) = None \<and>
   filter isAddAWSTags
     (render_calls (RenderAWS (example_target [example_found []]) example_externals None
       (example_desired ''stable'' None) (example_desired ''stable'' None)))
     = [CallAddAWSTags ''i-0abc'' [''Name'' \<mapsto> ''node-1'']] \<and>
   last (render_calls (RenderAWS (example_target [example_found []]) example_externals None
       (example_desired ''stable'' None) (example_desired ''stable'' None)))
     = CallAddAWSTags ''i-0abc'' [''Name'' \<mapsto> ''node-1'']"
proof -
  let ?R = "RenderAWS (example_target [example_found []]) example_externals None
       (example_desired ''stable'' None) (example_desired ''stable'' None)"
  have ok: "render_error ?R = None"
    by (simp add: RenderAWS_def createInstance_def buildRunInstancesInput_def example_defs
        MaxUserDataSize_def)
  from RenderAWS_tags_once [OF ok] obtain before instanceId where
    c: "render_calls ?R = before @ [CallAddAWSTags instanceId
          (Tags (example_desired ''stable'' None))]"
    and n: "\<not> (\<exists>c\<in>set before. isAddAWSTags c)"
    and i: "ID (render_desired ?R) = Some instanceId"
    by blast
  have "ID (render_desired ?R) = Some ''i-0abc''"
    by (simp add: RenderAWS_def createInstance_def buildRunInstancesInput_def example_defs
        MaxUserDataSize_def)
  with i have "instanceId = ''i-0abc''" by simp
  moreover have "filter isAddAWSTags before = []"
    using n by (simp add: filter_empty_conv)
  ultimately show ?thesis
    using ok c by (simp add: example_desired_def)
qed

subsection \<open>CheckChanges\<close>

text \<open>
  Claim C6. \<^verbatim>\<open>CheckChanges\<close> returns the required-field fault for \<open>Name\<close> exactly when an
  actual resource exists and the desired name is absent, and returns no error exactly in
  every other case; no other field is read.
\<close>

theorem CheckChanges_spec:
  "(CheckChanges a e changes = Some (RequiredField ''Name'')) = (a \<noteq> None \<and> Name e = None) \<and>
   (CheckChanges a e changes = None) = (a = None \<or> Name e \<noteq> None)"
  by (auto simp: CheckChanges_def)

theorem CheckChanges_spec_witness:
  "CheckChanges (Some (example_desired ''stable'' None))
     ((example_desired ''stable'' None)\<lparr>Name := None\<rparr>) (example_desired ''stable'' None)
     = Some (RequiredField ''Name'') \<and>
   CheckChanges None ((example_desired ''stable'' None)\<lparr>Name := None\<rparr>)
     (example_desired ''stable'' None) = None"
  using CheckChanges_spec [of "Some (example_desired ''stable'' None)"
      "(example_desired ''stable'' None)\<lparr>Name := None\<rparr>" "example_desired ''stable'' None"]
    CheckChanges_spec [of None
      "(example_desired ''stable'' None)\<lparr>Name := None\<rparr>" "example_desired ''stable'' None"]
  by simp

subsection \<open>nameFromIAMARN\<close>

text \<open>
  Claim C7. \<^verbatim>\<open>nameFromIAMARN\<close> returns \<^verbatim>\<open>nil\<close> for a \<^verbatim>\<open>nil\<close> reference and a name for
  every other one, never failing. With \<open>tok\<close> the part of the reference after its last
  colon (all of it when it has none): if \<open>tok\<close> starts with \<open>instance-profile/\<close>, the name
  is what follows that prefix and nothing is logged; otherwise the name is \<open>tok\<close> and a
  warning is logged.
\<close>

theorem nameFromIAMARN_spec:
  "nameFromIAMARN None = (Inr None, []) \<and>
   (\<exists>name. fst (nameFromIAMARN (Some arn)) = Inr (Some name)) \<and>
   (CHR '':'' \<notin> set tok \<and> (arn = tok \<or> arn = pre @ CHR '':'' # tok) \<longrightarrow>
      nameFromIAMARN (Some arn) =
        (if HasPrefix tok ''instance-profile/''
         then (Inr (Some (drop (length ''instance-profile/'') tok)), [])
         else (Inr (Some tok), [WarnUnexpectedARN arn])))"
proof (intro conjI impI)
  show "nameFromIAMARN None = (Inr None, [])"
    by (simp add: nameFromIAMARN_def)
  show "\<exists>name. fst (nameFromIAMARN (Some arn)) = Inr (Some name)"
    by (simp add: nameFromIAMARN_def Let_def Split_not_Nil)
next
  assume "CHR '':'' \<notin> set tok \<and> (arn = tok \<or> arn = pre @ CHR '':'' # tok)"
  then have "Split arn CHR '':'' ! (length (Split arn CHR '':'') - 1) = tok"
    using last_Split [of "CHR '':''" tok arn pre] by blast
  then show "nameFromIAMARN (Some arn) =
        (if HasPrefix tok ''instance-profile/''
         then (Inr (Some (drop (length ''instance-profile/'') tok)), [])
         else (Inr (Some tok), [WarnUnexpectedARN arn]))"
    by (simp add: nameFromIAMARN_def Let_def Split_not_Nil TrimPrefix_def)
qed

theorem nameFromIAMARN_spec_witness:
  "nameFromIAMARN (Some ''arn:aws:iam::42:instance-profile/masters'')
     = (Inr (Some ''masters''), []) \<and>
   nameFromIAMARN (Some ''arn:aws:iam::42:role/masters'')
     = (Inr (Some ''role/masters''), [WarnUnexpectedARN ''arn:aws:iam::42:role/masters''])"
  using nameFromIAMARN_spec [of "''arn:aws:iam::42:instance-profile/masters''"
      "''instance-profile/masters''" "''arn:aws:iam::42''"]
    nameFromIAMARN_spec [of "''arn:aws:iam::42:role/masters''"
      "''role/masters''" "''arn:aws:iam::42''"]
  by (simp add: HasPrefix_def)

subsection \<open>TerraformLink\<close>

text \<open>
  Claim C8. \<^verbatim>\<open>TerraformLink\<close> makes no provider call and leaves the descriptor as it
  was. Its reference is what \<^verbatim>\<open>LiteralSelfLink\<close> gives for the resource type
  \<open>aws_instance\<close> and the stable name, and the panic of the dereference when the name is
  absent: nothing else of the descriptor enters it, so two descriptors with the same
  name get the same reference.
\<close>

theorem TerraformLink_deterministic:
  "link_calls (TerraformLink tf e) = [] \<and>
   link_receiver (TerraformLink tf e) = e \<and>
   link_returned (TerraformLink tf e) =
     (case Name e of
        None \<Rightarrow> Inl NilDereference
      | Some n \<Rightarrow> Inr (LiteralSelfLink tf ''aws_instance'' n)) \<and>
   (Name e = Name e' \<longrightarrow>
      link_returned (TerraformLink tf e) = link_returned (TerraformLink tf e'))"
  by (simp add: TerraformLink_def)

theorem TerraformLink_deterministic_witness:
  "Name (example_desired ''stable'' None) =
     Name (example_desired ''ami-9'' (Some (BytesResource []))) \<and>
   link_returned (TerraformLink example_terraform (example_desired ''stable'' None)) =
     link_returned (TerraformLink example_terraform
       (example_desired ''ami-9'' (Some (BytesResource [])))) \<and>
   link_returned (TerraformLink example_terraform (example_desired ''stable'' None)) =
     Inr ''aws_instance.node-1.id'' \<and>
   link_returned (TerraformLink example_terraform
       ((example_desired ''stable'' None)\<lparr>Name := Some ''node-2''\<rparr>)) =
     Inr ''aws_instance.node-2.id'' \<and>
   link_calls (TerraformLink example_terraform (example_desired ''stable'' None)) = [] \<and>
   link_receiver (TerraformLink example_terraform (example_desired ''stable'' None)) =
     example_desired ''stable'' None"
proof -
  let ?e = "example_desired ''stable'' None"
  let ?e' = "example_desired ''ami-9'' (Some (BytesResource []))"
  let ?e2 = "(example_desired ''stable'' None)\<lparr>Name := Some ''node-2''\<rparr>"
  have n: "Name ?e = Name ?e'"
    by (simp add: example_desired_def)
  have n1: "Name ?e = Some ''node-1''" and n2: "Name ?e2 = Some ''node-2''"
    by (simp_all add: example_desired_def)
  have l: "LiteralSelfLink example_terraform ''aws_instance'' m = ''aws_instance.'' @ m @ ''.id''"
    for m
    by (simp add: example_terraform_def)
  from TerraformLink_deterministic [of example_terraform ?e ?e']
  have c: "link_calls (TerraformLink example_terraform ?e) = []"
    and r: "link_receiver (TerraformLink example_terraform ?e) = ?e"
    and v: "link_returned (TerraformLink example_terraform ?e) =
              (case Name ?e of
                 None \<Rightarrow> Inl NilDereference
               | Some n \<Rightarrow> Inr (LiteralSelfLink example_terraform ''aws_instance'' n))"
    and d: "Name ?e = Name ?e' \<longrightarrow>
              link_returned (TerraformLink example_terraform ?e) =
              link_returned (TerraformLink example_terraform ?e')"
    by blast+
  from TerraformLink_deterministic [of example_terraform ?e2]
  have v2: "link_returned (TerraformLink example_terraform ?e2) =
              (case Name ?e2 of
                 None \<Rightarrow> Inl NilDereference
               | Some n \<Rightarrow> Inr (LiteralSelfLink example_terraform ''aws_instance'' n))"
    by blast
  have "link_returned (TerraformLink example_terraform ?e) = Inr ''aws_instance.node-1.id''"
    unfolding v n1 by (simp add: l)
  moreover have "link_returned (TerraformLink example_terraform ?e2) =
      Inr ''aws_instance.node-2.id''"
    unfolding v2 n2 by (simp add: l)
  moreover have "link_returned (TerraformLink example_terraform ?e) =
      link_returned (TerraformLink example_terraform ?e')"
    using d n by blast
  ultimately show ?thesis
    using n c r by blast
qed

end
